theory Spec2Isabelle
  imports Complex_Main
begin

section \<open>The NexusPulse vitality engine (lib/vitality-engine.ts)\<close>

text \<open>
  The engine is a pure TypeScript module. Its only numeric type is \<^verbatim>\<open>number\<close>; the
  arithmetic of \<^verbatim>\<open>computeVitality\<close> is embedded over \<^typ>\<open>real\<close>, so every product, sum,
  quotient and comparison below is the exact one: the binary64 rounding of intermediate
  results, infinities and NaN are not part of the model. \<^verbatim>\<open>Math.max\<close>, \<^verbatim>\<open>Math.min\<close> are
  \<open>max\<close> and \<open>min\<close>; \<^verbatim>\<open>Math.round\<close> is rounding to the nearest integer with ties going
  up.
\<close>

subsection \<open>Data model\<close>

datatype VitalityState = dormant | recovering | stable | thriving | supernova

datatype Trend = rising | falling | flat

datatype MascotAnimation = anim_idle | anim_pulse | anim_breathe | anim_orbit | anim_supernova

record RawMetrics =
  commits :: real
  prsMerged :: real
  staleIssues :: real
  totalIssues :: real
  totalStars :: real
  totalForks :: real
  contributors :: real
  lastCommitDate :: string

record StateConfig =
  label :: string
  emoji :: string
  color :: string
  glowColor :: string
  description :: string
  mascotAnimation :: MascotAnimation
  particleCount :: nat
  ringColor :: string

record Breakdown =
  commitContribution :: real
  prContribution :: real
  stalePenalty :: real

record VitalityReport =
  score :: real
  normalizedScore :: real
  state :: VitalityState
  breakdown :: Breakdown
  stateConfig :: StateConfig
  trend :: Trend
  healthPercentage :: real

subsection \<open>The state configuration table\<close>

text \<open>
  \<^verbatim>\<open>STATE_CONFIGS\<close> is an object literal keyed by the five state tags; the lookup
  \<^verbatim>\<open>STATE_CONFIGS[state]\<close> is a total function on \<^typ>\<open>VitalityState\<close>. The emoji are kept
  as their UTF-8 bytes.
\<close>

fun STATE_CONFIGS :: "VitalityState \<Rightarrow> StateConfig" where
  "STATE_CONFIGS dormant = \<lparr>
     label = ''Dormant'',
     emoji = [CHR 0xF0, CHR 0x9F, CHR 0x8C, CHR 0x91],
     color = ''text-pulse-muted'',
     glowColor = ''#4a5080'',
     description = ''Repository activity has ceased. Awaiting revival.'',
     mascotAnimation = anim_idle,
     particleCount = 0,
     ringColor = ''conic-gradient(from 0deg, #4a5080, #2a2d4a, #4a5080)'' \<rparr>"
| "STATE_CONFIGS recovering = \<lparr>
     label = ''Recovering'',
     emoji = [CHR 0xF0, CHR 0x9F, CHR 0x8C, CHR 0x92],
     color = ''text-pulse-amber'',
     glowColor = ''#ffb830'',
     description = ''Faint signals detected. Growth patterns emerging.'',
     mascotAnimation = anim_breathe,
     particleCount = 4,
     ringColor = ''conic-gradient(from 0deg, #ffb830, #ff6b00, #ffb830)'' \<rparr>"
| "STATE_CONFIGS stable = \<lparr>
     label = ''Stable'',
     emoji = [CHR 0xF0, CHR 0x9F, CHR 0x8C, CHR 0x97],
     color = ''text-pulse-cyan'',
     glowColor = ''#00d4ff'',
     description = ''Consistent cadence. The system holds steady.'',
     mascotAnimation = anim_pulse,
     particleCount = 8,
     ringColor = ''conic-gradient(from 0deg, #00d4ff, #0066ff, #00d4ff)'' \<rparr>"
| "STATE_CONFIGS thriving = \<lparr>
     label = ''Thriving'',
     emoji = [CHR 0xF0, CHR 0x9F, CHR 0x8C, CHR 0x95],
     color = ''text-pulse-green'',
     glowColor = ''#00ff9d'',
     description = ''Peak performance. High contributor momentum detected.'',
     mascotAnimation = anim_orbit,
     particleCount = 16,
     ringColor = ''conic-gradient(from 0deg, #00ff9d, #00b4d8, #6c63ff, #00ff9d)'' \<rparr>"
| "STATE_CONFIGS supernova = \<lparr>
     label = ''Supernova'',
     emoji = [CHR 0xE2, CHR 0x9C, CHR 0xA8],
     color = ''text-yellow-300'',
     glowColor = ''#ff6b35'',
     description = ''CRITICAL MASS ACHIEVED. Extraordinary activity surge.'',
     mascotAnimation = anim_supernova,
     particleCount = 32,
     ringColor =
       ''conic-gradient(from 0deg, #ff6b35, #ff4069, #6c63ff, #00ff9d, #ffb830, #ff6b35)'' \<rparr>"

subsection \<open>The core vitality formula\<close>

definition Math_round :: "real \<Rightarrow> real" where
  "Math_round x = of_int \<lfloor>x + 1 / 2\<rfloor>"

definition resolveState :: "real \<Rightarrow> VitalityState" where
  "resolveState sc =
     (if sc < 0 then dormant
      else if sc < 25 then recovering
      else if sc < 60 then stable
      else if sc < 90 then thriving
      else supernova)"

definition MAX_EXPECTED_SCORE :: real where
  "MAX_EXPECTED_SCORE = 120"

definition computeVitality :: "RawMetrics \<Rightarrow> VitalityReport" where
  "computeVitality metrics =
     (let commitContribution = commits metrics * 0.5;
          prContribution = prsMerged metrics * 0.3;
          stalePenalty = staleIssues metrics * 0.2;
          score = commitContribution + prContribution - stalePenalty;
          normalizedScore = max 0 (min 100 ((score / MAX_EXPECTED_SCORE) * 100));
          state = resolveState score;
          stateConfig = STATE_CONFIGS state;
          staleRatio = (if totalIssues metrics > 0
                        then staleIssues metrics / totalIssues metrics
                        else 0);
          healthPercentage = max 0 (min 100 (normalizedScore * (1 - staleRatio * 0.5)));
          commitMomentum = commits metrics * 0.5;
          closureMomentum = prsMerged metrics * 0.3;
          trend = (if commitMomentum > closureMomentum + 10 then rising
                   else if closureMomentum > commitMomentum + 10 then falling
                   else flat)
      in \<lparr> score = Math_round (score * 10) / 10,
           normalizedScore = Math_round (normalizedScore * 10) / 10,
           state = state,
           breakdown = \<lparr>
             commitContribution = Math_round (commitContribution * 10) / 10,
             prContribution = Math_round (prContribution * 10) / 10,
             stalePenalty = Math_round (stalePenalty * 10) / 10 \<rparr>,
           stateConfig = stateConfig,
           trend = trend,
           healthPercentage = Math_round healthPercentage \<rparr>)"

text \<open>
  The local constants of \<^verbatim>\<open>computeVitality\<close> that the report does not return as they
  are (the report rounds them), named so that properties can speak about them.
\<close>

definition rawScore :: "RawMetrics \<Rightarrow> real" where
  "rawScore metrics =
     commits metrics * 0.5 + prsMerged metrics * 0.3 - staleIssues metrics * 0.2"

definition rawNormalizedScore :: "RawMetrics \<Rightarrow> real" where
  "rawNormalizedScore metrics =
     max 0 (min 100 ((rawScore metrics / MAX_EXPECTED_SCORE) * 100))"

definition staleRatio :: "RawMetrics \<Rightarrow> real" where
  "staleRatio metrics =
     (if totalIssues metrics > 0 then staleIssues metrics / totalIssues metrics else 0)"

text \<open>The vitality order of the states, as the type lists them.\<close>

fun stateRank :: "VitalityState \<Rightarrow> nat" where
  "stateRank dormant = 0"
| "stateRank recovering = 1"
| "stateRank stable = 2"
| "stateRank thriving = 3"
| "stateRank supernova = 4"

subsection \<open>Formatting large numbers for display\<close>

text \<open>
  \<^verbatim>\<open>formatMetricValue\<close> turns a number into text with \<^verbatim>\<open>toFixed(1)\<close> and \<^verbatim>\<open>toString()\<close>.
  The digits that \<^verbatim>\<open>toString()\<close> prints for a fraction are those of the shortest decimal
  that reads back as the same binary64 value, which exact arithmetic cannot express; the
  repository passes star and fork counts, so the argument is embedded as an \<^typ>\<open>int\<close>.
  Both built-ins follow ECMAScript (Number.prototype.toFixed, Number::toString): below
  \<open>10 ^ 21\<close> the notation is positional, from \<open>10 ^ 21\<close> on it is exponential.
\<close>

definition digit_char :: "nat \<Rightarrow> char" where
  "digit_char d = ''0123456789'' ! d"

fun nat_toString :: "nat \<Rightarrow> string" where
  "nat_toString n =
     (if n < 10 then [digit_char n]
      else nat_toString (n div 10) @ [digit_char (n mod 10)])"

declare nat_toString.simps [simp del]









text \<open>The number a string of decimal digits denotes.\<close>

definition digit_value :: "char \<Rightarrow> nat" where
  "digit_value c = of_char c - 48"

definition decimal_value :: "string \<Rightarrow> nat" where
  "decimal_value cs = foldl (\<lambda>a c. 10 * a + digit_value c) 0 cs"

subsection \<open>Sample inputs\<close>



section \<open>Properties\<close>

subsection \<open>Rounding and the fields of the report\<close>


lemma Math_round_mono: "x \<le> y \<Longrightarrow> Math_round x \<le> Math_round y"
  by (simp add: Math_round_def floor_mono)

lemma Math_round_of_int: "Math_round (of_int k) = of_int k"
  unfolding Math_round_def by (simp add: floor_unique)



lemma computeVitality_normalizedScore:
  "normalizedScore (computeVitality m) = Math_round (rawNormalizedScore m * 10) / 10"
  by (simp add: computeVitality_def rawNormalizedScore_def rawScore_def Let_def)

lemma computeVitality_healthPercentage:
  "healthPercentage (computeVitality m) =
     Math_round (max 0 (min 100 (rawNormalizedScore m * (1 - staleRatio m * 0.5))))"
  by (simp add: computeVitality_def rawNormalizedScore_def rawScore_def staleRatio_def Let_def)



lemma rawNormalizedScore_range: "0 \<le> rawNormalizedScore m \<and> rawNormalizedScore m \<le> 100"
  by (simp add: rawNormalizedScore_def)



subsection \<open>State classification\<close>


text \<open>
  Claim C10. The classification is monotone: a score that is not smaller never yields a
  state that is lower in the order dormant, recovering, stable, thriving, supernova.
\<close>

theorem resolveState_mono:
  "s1 \<le> s2 \<Longrightarrow> stateRank (resolveState s1) \<le> stateRank (resolveState s2)"
  by (simp add: resolveState_def)

theorem resolveState_mono_witness:
  "(10::real) \<le> 70 \<and> resolveState 10 = recovering \<and> resolveState 70 = thriving \<and>
   stateRank (resolveState 10) \<le> stateRank (resolveState 70)"
proof -
  have h: "(10::real) \<le> 70" by simp
  have "stateRank (resolveState 10) \<le> stateRank (resolveState 70)"
    using h by (rule resolveState_mono)
  then show ?thesis
    by (simp add: resolveState_def)
qed

subsection \<open>The state configuration table\<close>

text \<open>
  Claim C9. In \<^verbatim>\<open>STATE_CONFIGS\<close> the particle counts of dormant, recovering, stable,
  thriving and supernova are 0, 4, 8, 16 and 32, so the count grows strictly as the state
  advances.
\<close>

theorem particleCount_table:
  "map (\<lambda>s. particleCount (STATE_CONFIGS s)) [dormant, recovering, stable, thriving, supernova]
     = [0, 4, 8, 16, 32] \<and>
   (\<forall>s t. stateRank s < stateRank t \<longrightarrow>
      particleCount (STATE_CONFIGS s) < particleCount (STATE_CONFIGS t))"
proof -
  have "stateRank s < stateRank t \<Longrightarrow>
      particleCount (STATE_CONFIGS s) < particleCount (STATE_CONFIGS t)" for s t
    by (cases s; cases t) simp_all
  then show ?thesis by simp
qed

theorem particleCount_table_witness:
  "stateRank stable < stateRank thriving \<and>
   particleCount (STATE_CONFIGS stable) = 8 \<and> particleCount (STATE_CONFIGS thriving) = 16 \<and>
   particleCount (STATE_CONFIGS stable) < particleCount (STATE_CONFIGS thriving)"
proof -
  have h: "stateRank stable < stateRank thriving" by simp
  from particleCount_table
  have "stateRank stable < stateRank thriving \<longrightarrow>
      particleCount (STATE_CONFIGS stable) < particleCount (STATE_CONFIGS thriving)"
    by blast
  with h show ?thesis by simp
qed

subsection \<open>Clamping, trend and the all-zero input\<close>

text \<open>
  Claim C2. The normalizedScore and the healthPercentage of every report lie in the
  interval from 0 to 100, both ends included. This holds for all values of the counts,
  in particular for non-negative integer counts of any size.
\<close>

theorem normalized_and_health_in_range:
  "0 \<le> normalizedScore (computeVitality m) \<and> normalizedScore (computeVitality m) \<le> 100 \<and>
   0 \<le> healthPercentage (computeVitality m) \<and> healthPercentage (computeVitality m) \<le> 100"
proof -
  let ?n = "rawNormalizedScore m"
  have n: "0 \<le> ?n" "?n \<le> 100"
    using rawNormalizedScore_range by simp_all
  have "Math_round 0 \<le> Math_round (?n * 10)" "Math_round (?n * 10) \<le> Math_round 1000"
    using n by (simp_all add: Math_round_mono)
  moreover have "Math_round 0 = 0" "Math_round 1000 = 1000"
    using Math_round_of_int [of 0] Math_round_of_int [of 1000] by simp_all
  ultimately have a: "0 \<le> normalizedScore (computeVitality m)"
    "normalizedScore (computeVitality m) \<le> 100"
    by (simp_all add: computeVitality_normalizedScore)
  let ?h = "max 0 (min 100 (?n * (1 - staleRatio m * 0.5)))"
  have "Math_round 0 \<le> Math_round ?h" "Math_round ?h \<le> Math_round 100"
    by (simp_all add: Math_round_mono)
  moreover have "Math_round 0 = 0" "Math_round 100 = 100"
    using Math_round_of_int [of 0] Math_round_of_int [of 100] by simp_all
  ultimately have b: "0 \<le> healthPercentage (computeVitality m)"
    "healthPercentage (computeVitality m) \<le> 100"
    by (simp_all add: computeVitality_healthPercentage)
  from a b show ?thesis by simp
qed


text \<open>
  Claim C7. On the input whose commits, prsMerged, staleIssues and totalIssues are all 0,
  whatever the informational fields hold, the report has score 0, state recovering,
  healthPercentage 0 and trend flat.
\<close>

theorem all_zero_report:
  "score (computeVitality \<lparr>commits = 0, prsMerged = 0, staleIssues = 0, totalIssues = 0,
      totalStars = st, totalForks = fk, contributors = co, lastCommitDate = d\<rparr>) = 0 \<and>
   state (computeVitality \<lparr>commits = 0, prsMerged = 0, staleIssues = 0, totalIssues = 0,
      totalStars = st, totalForks = fk, contributors = co, lastCommitDate = d\<rparr>) = recovering \<and>
   healthPercentage (computeVitality \<lparr>commits = 0, prsMerged = 0, staleIssues = 0,
      totalIssues = 0, totalStars = st, totalForks = fk, contributors = co,
      lastCommitDate = d\<rparr>) = 0 \<and>
   trend (computeVitality \<lparr>commits = 0, prsMerged = 0, staleIssues = 0, totalIssues = 0,
      totalStars = st, totalForks = fk, contributors = co, lastCommitDate = d\<rparr>) = flat"
  by (simp add: computeVitality_def Let_def resolveState_def Math_round_def)

subsection \<open>The breakdown and the score\<close>




subsection \<open>Health percentage\<close>









subsection \<open>Formatting\<close>


lemma digit_value_digit_char: "d < 10 \<Longrightarrow> digit_value (digit_char d) = d"
proof -
  assume "d < 10"
  then have "d \<in> {0, 1, 2, 3, 4, 5, 6, 7, 8, 9}" by auto
  then show ?thesis
    by (elim insertE emptyE) (simp_all add: digit_value_def digit_char_def)
qed

lemma decimal_value_snoc:
  "decimal_value (cs @ [c]) = 10 * decimal_value cs + digit_value c"
  by (simp add: decimal_value_def)

lemma decimal_value_nat_toString: "decimal_value (nat_toString n) = n"
proof (induction n rule: nat_toString.induct)
  case (1 n)
  show ?case
  proof (cases "n < 10")
    case True
    then show ?thesis
      by (subst nat_toString.simps) (simp add: decimal_value_def digit_value_digit_char)
  next
    case False
    with 1 have "decimal_value (nat_toString (n div 10)) = n div 10" by simp
    with False show ?thesis
      by (subst nat_toString.simps) (simp add: decimal_value_snoc digit_value_digit_char)
  qed
qed







end
